theory Spec2Isabelle
  imports Complex_Main
begin

section \<open>Python values\<close>

text \<open>
  The server in \<^verbatim>\<open>src/mcp_datetimeday/server.py\<close> exposes five tools. Each takes strings and
  optional integers and returns a Python dict. The embedding below follows the source line
  by line; the standard-library calls it makes (\<^verbatim>\<open>datetime.strptime\<close>, datetime
  arithmetic, \<^verbatim>\<open>strftime\<close>, \<^verbatim>\<open>calendar.monthrange\<close>, \<^verbatim>\<open>astimezone\<close>) are embedded from
  CPython's own pure-Python sources (\<^verbatim>\<open>_pydatetime.py\<close>, \<^verbatim>\<open>_strptime.py\<close>,
  \<^verbatim>\<open>calendar.py\<close>), restricted to what the server uses.

  Python strings are modelled as \<^typ>\<open>string\<close>: texts whose code points are below 256.
  Python integers are \<^typ>\<open>int\<close>. An exception that leaves a tool is an outcome of its
  own, so that a tool which raises is told apart from a tool which returns.
\<close>

datatype pyval = VStr string | VInt int | VBool bool | VDict "(string \<times> pyval) list"

type_synonym pydict = "(string \<times> pyval) list"

datatype pyexc = ValueError | OverflowError

datatype outcome = Returned pydict | Raised pyexc

definition keys :: "pydict \<Rightarrow> string list" where
  "keys d = map fst d"

definition lookup :: "pydict \<Rightarrow> string \<Rightarrow> pyval option" where
  "lookup d k = map_of d k"

subsection \<open>Digits and \<^verbatim>\<open>str(int)\<close>\<close>

definition isdigit :: "char \<Rightarrow> bool" where
  "isdigit c = (48 \<le> (of_char c :: nat) \<and> (of_char c :: nat) \<le> 57)"

definition digit_val :: "char \<Rightarrow> nat" where
  "digit_val c = (of_char c :: nat) - 48"

definition digit_char :: "nat \<Rightarrow> char" where
  "digit_char n = char_of (48 + n)"

text \<open>\<^verbatim>\<open>int(text)\<close> on a run of decimal digits (most significant first).\<close>

fun int_of_digits_acc :: "nat \<Rightarrow> string \<Rightarrow> nat" where
  "int_of_digits_acc acc [] = acc"
| "int_of_digits_acc acc (c # cs) = int_of_digits_acc (10 * acc + digit_val c) cs"

text \<open>
  \<^verbatim>\<open>int(text)\<close> as \<^verbatim>\<open>_strptime\<close> calls it on a captured group: surrounding blanks are
  ignored by \<^verbatim>\<open>int\<close> (the group of \<^verbatim>\<open>%d\<close> may start with a blank), the rest are digits.
\<close>

definition py_int_of_str :: "string \<Rightarrow> int" where
  "py_int_of_str s = int (int_of_digits_acc 0 (filter isdigit s))"

fun str_nat :: "nat \<Rightarrow> string" where
  "str_nat n = (if n < 10 then [digit_char n] else str_nat (n div 10) @ [digit_char (n mod 10)])"

declare str_nat.simps [simp del]

definition str_int :: "int \<Rightarrow> string" where
  "str_int i = (if i < 0 then CHR ''-'' # str_nat (nat (- i)) else str_nat (nat i))"

text \<open>Zero-padded fields of \<^verbatim>\<open>strftime\<close>: \<^verbatim>\<open>%m %d %H %M %S\<close> (two digits), \<^verbatim>\<open>%Y\<close> (four).\<close>

definition pad2 :: "int \<Rightarrow> string" where
  "pad2 i = [digit_char (nat i div 10 mod 10), digit_char (nat i mod 10)]"

definition pad4 :: "int \<Rightarrow> string" where
  "pad4 i = [digit_char (nat i div 1000 mod 10), digit_char (nat i div 100 mod 10),
             digit_char (nat i div 10 mod 10), digit_char (nat i mod 10)]"

section \<open>The proleptic Gregorian calendar of \<^verbatim>\<open>datetime\<close>\<close>

text \<open>From \<^verbatim>\<open>_pydatetime.py\<close>: \<^verbatim>\<open>_is_leap\<close>, \<^verbatim>\<open>_days_before_year\<close>, \<^verbatim>\<open>_days_in_month\<close>,
  \<^verbatim>\<open>_days_before_month\<close>, \<^verbatim>\<open>_ymd2ord\<close>. Python's \<^verbatim>\<open>//\<close> and \<^verbatim>\<open>%\<close> on integers round
  towards minus infinity, as \<^term>\<open>(div)\<close> and \<^term>\<open>(mod)\<close> on \<^typ>\<open>int\<close> do.\<close>

definition py_is_leap :: "int \<Rightarrow> bool" where
  "py_is_leap y = (y mod 4 = 0 \<and> (y mod 100 \<noteq> 0 \<or> y mod 400 = 0))"

definition py_days_before_year :: "int \<Rightarrow> int" where
  "py_days_before_year y = (y - 1) * 365 + (y - 1) div 4 - (y - 1) div 100 + (y - 1) div 400"

definition DAYS_IN_MONTH :: "int list" where
  "DAYS_IN_MONTH = [-1, 31, 28, 31, 30, 31, 30, 31, 31, 30, 31, 30, 31]"

definition DAYS_BEFORE_MONTH :: "int list" where
  "DAYS_BEFORE_MONTH = [-1, 0, 31, 59, 90, 120, 151, 181, 212, 243, 273, 304, 334]"

text \<open>Both are only called with a month in 1..12 (the callers check it first).\<close>

definition py_days_in_month :: "int \<Rightarrow> int \<Rightarrow> int" where
  "py_days_in_month y m = (if m = 2 \<and> py_is_leap y then 29 else DAYS_IN_MONTH ! nat m)"

definition py_days_before_month :: "int \<Rightarrow> int \<Rightarrow> int" where
  "py_days_before_month y m = DAYS_BEFORE_MONTH ! nat m + (if m > 2 \<and> py_is_leap y then 1 else 0)"

definition py_ymd2ord :: "int \<Rightarrow> int \<Rightarrow> int \<Rightarrow> int" where
  "py_ymd2ord y m d = py_days_before_year y + py_days_before_month y m + d"

section \<open>\<^verbatim>\<open>datetime\<close> and \<^verbatim>\<open>timedelta\<close>\<close>

record datetime =
  dt_year :: int
  dt_month :: int
  dt_day :: int
  dt_hour :: int
  dt_minute :: int
  dt_second :: int
  dt_microsecond :: int

text \<open>The constructor \<^verbatim>\<open>datetime(year, month, day, hour, minute, second, microsecond)\<close>:
  \<^verbatim>\<open>_check_date_fields\<close> and \<^verbatim>\<open>_check_time_fields\<close> raise \<^verbatim>\<open>ValueError\<close>
  (\<^verbatim>\<open>MINYEAR = 1\<close>, \<^verbatim>\<open>MAXYEAR = 9999\<close>).\<close>

definition check_date_fields :: "int \<Rightarrow> int \<Rightarrow> int \<Rightarrow> bool" where
  "check_date_fields y m d =
     (1 \<le> y \<and> y \<le> 9999 \<and> 1 \<le> m \<and> m \<le> 12 \<and> 1 \<le> d \<and> d \<le> py_days_in_month y m)"

definition check_time_fields :: "int \<Rightarrow> int \<Rightarrow> int \<Rightarrow> int \<Rightarrow> bool" where
  "check_time_fields h mi s us =
     (0 \<le> h \<and> h \<le> 23 \<and> 0 \<le> mi \<and> mi \<le> 59 \<and> 0 \<le> s \<and> s \<le> 59 \<and> 0 \<le> us \<and> us \<le> 999999)"

definition mk_datetime :: "int \<Rightarrow> int \<Rightarrow> int \<Rightarrow> int \<Rightarrow> int \<Rightarrow> int \<Rightarrow> int \<Rightarrow> datetime option" where
  "mk_datetime y m d h mi s us =
     (if check_date_fields y m d \<and> check_time_fields h mi s us
      then Some \<lparr>dt_year = y, dt_month = m, dt_day = d, dt_hour = h, dt_minute = mi,
                 dt_second = s, dt_microsecond = us\<rparr>
      else None)"

text \<open>The invariant every \<^verbatim>\<open>datetime\<close> object satisfies.\<close>

definition valid_datetime :: "datetime \<Rightarrow> bool" where
  "valid_datetime t =
     (check_date_fields (dt_year t) (dt_month t) (dt_day t) \<and>
      check_time_fields (dt_hour t) (dt_minute t) (dt_second t) (dt_microsecond t))"

definition toordinal :: "datetime \<Rightarrow> int" where
  "toordinal t = py_ymd2ord (dt_year t) (dt_month t) (dt_day t)"

record timedelta =
  td_days :: int
  td_seconds :: int
  td_microseconds :: int

text \<open>\<^verbatim>\<open>timedelta(days, seconds, microseconds)\<close> normalises its arguments so that
  \<^verbatim>\<open>0 <= seconds < 86400\<close> and \<^verbatim>\<open>0 <= microseconds < 1000000\<close>; the carries go upwards with
  \<^verbatim>\<open>divmod\<close>, so a negative span has a negative \<^verbatim>\<open>days\<close> and non-negative rest.\<close>

definition mk_timedelta :: "int \<Rightarrow> int \<Rightarrow> int \<Rightarrow> timedelta" where
  "mk_timedelta d s us =
     (let s1 = s + us div 1000000;
          us1 = us mod 1000000;
          d1 = d + s1 div 86400;
          s2 = s1 mod 86400
      in \<lparr>td_days = d1, td_seconds = s2, td_microseconds = us1\<rparr>)"

text \<open>\<^verbatim>\<open>datetime.__sub__\<close> for two naive datetimes.\<close>

definition dt_sub :: "datetime \<Rightarrow> datetime \<Rightarrow> timedelta" where
  "dt_sub self other =
     (let days1 = toordinal self;
          days2 = toordinal other;
          secs1 = dt_second self + dt_minute self * 60 + dt_hour self * 3600;
          secs2 = dt_second other + dt_minute other * 60 + dt_hour other * 3600
      in mk_timedelta (days1 - days2) (secs1 - secs2) (dt_microsecond self - dt_microsecond other))"

text \<open>\<^verbatim>\<open>timedelta.total_seconds()\<close> is a true division, a float in Python. It is modelled
  by the exact quotient. When both datetimes come from \<^verbatim>\<open>strptime\<close> the value is a whole
  number below \<^verbatim>\<open>2**53\<close>, which a double holds exactly, and so are all the values computed
  from it; with the clock as reference the model idealises the rounding of the float.\<close>

definition total_seconds :: "timedelta \<Rightarrow> rat" where
  "total_seconds td =
     of_int ((td_days td * 86400 + td_seconds td) * 10 ^ 6 + td_microseconds td) / 10 ^ 6"

text \<open>Float \<^verbatim>\<open>//\<close> and \<^verbatim>\<open>%\<close> with a positive divisor, and \<^verbatim>\<open>int(x)\<close> (towards zero).\<close>

definition floordiv :: "rat \<Rightarrow> rat \<Rightarrow> rat" where
  "floordiv x y = of_int \<lfloor>x / y\<rfloor>"

definition pymod :: "rat \<Rightarrow> rat \<Rightarrow> rat" where
  "pymod x y = x - y * of_int \<lfloor>x / y\<rfloor>"

definition py_int :: "rat \<Rightarrow> int" where
  "py_int x = (if x < 0 then \<lceil>x\<rceil> else \<lfloor>x\<rfloor>)"

text \<open>\<^verbatim>\<open>date.weekday()\<close> (Monday is 0) and \<^verbatim>\<open>strftime("%A")\<close> in the C locale.\<close>

definition weekday :: "datetime \<Rightarrow> int" where
  "weekday t = (toordinal t + 6) mod 7"

definition day_names :: "string list" where
  "day_names = [''Monday'', ''Tuesday'', ''Wednesday'', ''Thursday'', ''Friday'', ''Saturday'',
                ''Sunday'']"

definition strftime_A :: "datetime \<Rightarrow> string" where
  "strftime_A t = day_names ! nat (weekday t)"

section \<open>\<^verbatim>\<open>datetime.strptime\<close>\<close>

text \<open>
  \<^verbatim>\<open>_strptime.py\<close> turns the format into a regular expression (\<^verbatim>\<open>TimeRE.pattern\<close>): a
  run of whitespace becomes \<^verbatim>\<open>\s+\<close>, a directive \<^verbatim>\<open>%x\<close> becomes a named group, every other
  character stands for itself. The expression is compiled with \<^verbatim>\<open>IGNORECASE\<close> and applied
  with \<^verbatim>\<open>match\<close>, which anchors at the start only and returns the first match in
  backtracking order; \<^verbatim>\<open>_strptime\<close> then raises \<^verbatim>\<open>ValueError\<close> unless that match ends
  at the end of the text. All failures of \<^verbatim>\<open>strptime\<close> on a string are \<^verbatim>\<open>ValueError\<close>, so
  the model returns \<^term>\<open>None\<close> for them.
\<close>

datatype regex =
    Lit char                \<comment> \<open>a literal character, compared ignoring case\<close>
  | Rng char char         \<comment> \<open>\<^verbatim>\<open>[a-b]\<close>\<close>
  | Digit                   \<comment> \<open>\<^verbatim>\<open>\d\<close>\<close>
  | Spaces                  \<comment> \<open>\<^verbatim>\<open>\s+\<close>\<close>
  | Seq regex regex
  | Alt regex regex

definition isspace :: "char \<Rightarrow> bool" where
  "isspace c = ((of_char c :: nat) \<in> {9, 10, 11, 12, 13, 28, 29, 30, 31, 32, 133, 160})"

definition lower :: "char \<Rightarrow> char" where
  "lower c = (if 65 \<le> (of_char c :: nat) \<and> (of_char c :: nat) \<le> 90
              then char_of ((of_char c :: nat) + 32) else c)"

text \<open>\<^verbatim>\<open>\s+\<close> is greedy: it first takes the whole run of whitespace and gives characters
  back one at a time. The result lists what is left of the text, in the order tried.\<close>

fun spaces_rests :: "string \<Rightarrow> string list" where
  "spaces_rests [] = []"
| "spaces_rests (c # cs) = (if isspace c then spaces_rests cs @ [cs] else [])"

text \<open>All ways a regular expression matches a prefix of the text, as the list of the
  remaining suffixes in backtracking order (first alternative first).\<close>

fun rmatch :: "regex \<Rightarrow> string \<Rightarrow> string list" where
  "rmatch (Lit a) s = (case s of [] \<Rightarrow> [] | c # cs \<Rightarrow> if lower c = lower a then [cs] else [])"
| "rmatch (Rng a b) s =
     (case s of [] \<Rightarrow> []
      | c # cs \<Rightarrow> if (of_char a :: nat) \<le> of_char c \<and> (of_char c :: nat) \<le> of_char b
                  then [cs] else [])"
| "rmatch Digit s = (case s of [] \<Rightarrow> [] | c # cs \<Rightarrow> if isdigit c then [cs] else [])"
| "rmatch Spaces s = spaces_rests s"
| "rmatch (Seq r1 r2) s = concat (map (rmatch r2) (rmatch r1 s))"
| "rmatch (Alt r1 r2) s = rmatch r1 s @ rmatch r2 s"

text \<open>The groups of the six directives the server uses, as \<^verbatim>\<open>TimeRE.__init__\<close> writes
  them. Any other directive is outside the model (\<^term>\<open>None\<close>).\<close>

definition re_Y :: regex where
  "re_Y = Seq Digit (Seq Digit (Seq Digit Digit))"

definition re_m :: regex where
  "re_m = Alt (Seq (Lit CHR ''1'') (Rng CHR ''0'' CHR ''2''))
         (Alt (Seq (Lit CHR ''0'') (Rng CHR ''1'' CHR ''9''))
              (Rng CHR ''1'' CHR ''9''))"

definition re_d :: regex where
  "re_d = Alt (Seq (Lit CHR ''3'') (Rng CHR ''0'' CHR ''1''))
         (Alt (Seq (Rng CHR ''1'' CHR ''2'') Digit)
         (Alt (Seq (Lit CHR ''0'') (Rng CHR ''1'' CHR ''9''))
         (Alt (Rng CHR ''1'' CHR ''9'')
              (Seq (Lit CHR '' '') (Rng CHR ''1'' CHR ''9'')))))"

definition re_H :: regex where
  "re_H = Alt (Seq (Lit CHR ''2'') (Rng CHR ''0'' CHR ''3''))
         (Alt (Seq (Rng CHR ''0'' CHR ''1'') Digit)
              Digit)"

definition re_M :: regex where
  "re_M = Alt (Seq (Rng CHR ''0'' CHR ''5'') Digit) Digit"

definition re_S :: regex where
  "re_S = Alt (Seq (Lit CHR ''6'') (Rng CHR ''0'' CHR ''1''))
         (Alt (Seq (Rng CHR ''0'' CHR ''5'') Digit)
              Digit)"

definition directive_re :: "char \<Rightarrow> regex option" where
  "directive_re d =
     (if d = CHR ''Y'' then Some re_Y
      else if d = CHR ''m'' then Some re_m
      else if d = CHR ''d'' then Some re_d
      else if d = CHR ''H'' then Some re_H
      else if d = CHR ''M'' then Some re_M
      else if d = CHR ''S'' then Some re_S
      else None)"

datatype item = Plain regex | Group char regex

text \<open>\<^verbatim>\<open>TimeRE.pattern\<close>: the format as a sequence of plain pieces and named groups. A
  stray \<^verbatim>\<open>%\<close> or an unknown directive makes \<^verbatim>\<open>strptime\<close> raise \<^verbatim>\<open>ValueError\<close>.\<close>

function pattern :: "string \<Rightarrow> item list option" where
  "pattern [] = Some []"
| "pattern (c # cs) =
     (if c = CHR ''%'' then
        (case cs of
           [] \<Rightarrow> None
         | d # ds \<Rightarrow>
             (case directive_re d of
                None \<Rightarrow> None
              | Some r \<Rightarrow> (case pattern ds of None \<Rightarrow> None | Some its \<Rightarrow> Some (Group d r # its))))
      else if isspace c then
        (case pattern (dropWhile isspace cs) of None \<Rightarrow> None | Some its \<Rightarrow> Some (Plain Spaces # its))
      else
        (case pattern cs of None \<Rightarrow> None | Some its \<Rightarrow> Some (Plain (Lit c) # its)))"
  by pat_completeness auto
termination
  by (relation "measure length") (auto simp: length_dropWhile_le less_Suc_eq_le)

text \<open>All matches of the whole pattern against a prefix of the text, in backtracking
  order: the captured groups and the unread rest. \<^verbatim>\<open>re.match\<close> returns the first.\<close>

fun match_items :: "item list \<Rightarrow> string \<Rightarrow> ((char \<times> string) list \<times> string) list" where
  "match_items [] s = [([], s)]"
| "match_items (Plain r # its) s = concat (map (match_items its) (rmatch r s))"
| "match_items (Group d r # its) s =
     concat (map (\<lambda>rest. map (\<lambda>(groups, rest'). ((d, take (length s - length rest) s) # groups, rest'))
                               (match_items its rest))
                 (rmatch r s))"

text \<open>The part of \<^verbatim>\<open>_strptime\<close> after the match: defaults, \<^verbatim>\<open>int\<close> of each group, and
  the constructors \<^verbatim>\<open>datetime_date(year, month, day)\<close> and \<^verbatim>\<open>cls(*args)\<close>, which raise
  \<^verbatim>\<open>ValueError\<close> on a field out of range. Without \<^verbatim>\<open>%Y\<close> the year is 1900.\<close>

definition group_int :: "(char \<times> string) list \<Rightarrow> char \<Rightarrow> int \<Rightarrow> int" where
  "group_int found d dflt = (case map_of found d of None \<Rightarrow> dflt | Some txt \<Rightarrow> py_int_of_str txt)"

definition strptime :: "string \<Rightarrow> string \<Rightarrow> datetime option" where
  "strptime data_string format =
     (case pattern format of
        None \<Rightarrow> None
      | Some format_regex \<Rightarrow>
          (case match_items format_regex data_string of
             [] \<Rightarrow> None
           | (found, rest) # _ \<Rightarrow>
               if rest \<noteq> [] then None
               else mk_datetime (group_int found CHR ''Y'' 1900) (group_int found CHR ''m'' 1)
                      (group_int found CHR ''d'' 1) (group_int found CHR ''H'' 0)
                      (group_int found CHR ''M'' 0) (group_int found CHR ''S'' 0) 0))"

text \<open>The loop \<^verbatim>\<open>for fmt in formats: try: x = datetime.strptime(s, fmt); break
  except ValueError: continue\<close>, with \<^verbatim>\<open>x = None\<close> before it.\<close>

fun try_formats :: "string list \<Rightarrow> string \<Rightarrow> datetime option" where
  "try_formats [] s = None"
| "try_formats (fmt # fmts) s =
     (case strptime s fmt of Some t \<Rightarrow> Some t | None \<Rightarrow> try_formats fmts s)"

section \<open>The tools\<close>

text \<open>Reading the outcome of a tool: the value under a key of the returned dict.\<close>

fun field :: "outcome \<Rightarrow> string \<Rightarrow> pyval option" where
  "field (Returned d) k = map_of d k"
| "field (Raised e) k = None"

text \<open>Truthiness of an optional string argument (\<^verbatim>\<open>if reference:\<close>): \<^verbatim>\<open>None\<close> and the
  empty string are false.\<close>

fun truthy :: "string option \<Rightarrow> bool" where
  "truthy None = False"
| "truthy (Some s) = (s \<noteq> [])"

subsection \<open>\<^verbatim>\<open>relative_time\<close>\<close>

definition rt_formats :: "string list" where
  "rt_formats = [''%Y-%m-%d'', ''%Y-%m-%dT%H:%M:%S'', ''%Y-%m-%d %H:%M:%S'']"

text \<open>Lines 111 to 134: the \<^verbatim>\<open>if\<close>/\<open>elif\<close> chain that builds \<^verbatim>\<open>desc\<close>.\<close>

definition build_desc :: "int \<Rightarrow> int \<Rightarrow> int \<Rightarrow> int \<Rightarrow> string" where
  "build_desc days hours minutes seconds =
     (if days \<ge> 365 then
        (let years = days div 365; unit = (if years = 1 then ''year'' else ''years'')
         in str_int years @ '' '' @ unit)
      else if days \<ge> 30 then
        (let months = days div 30; unit = (if months = 1 then ''month'' else ''months'')
         in str_int months @ '' '' @ unit)
      else if days \<ge> 7 then
        (let weeks = days div 7; unit = (if weeks = 1 then ''week'' else ''weeks'')
         in str_int weeks @ '' '' @ unit)
      else if days > 0 then
        (let unit = (if days = 1 then ''day'' else ''days'') in str_int days @ '' '' @ unit)
      else if hours > 0 then
        (let unit = (if hours = 1 then ''hour'' else ''hours'') in str_int hours @ '' '' @ unit)
      else if minutes > 0 then
        (let unit = (if minutes = 1 then ''minute'' else ''minutes'')
         in str_int minutes @ '' '' @ unit)
      else
        (let unit = (if seconds = 1 then ''second'' else ''seconds'')
         in str_int seconds @ '' '' @ unit))"

text \<open>Lines 99 to 147, once \<^verbatim>\<open>target\<close> and \<^verbatim>\<open>ref\<close> are known.\<close>

definition rt_result :: "string \<Rightarrow> string option \<Rightarrow> datetime \<Rightarrow> datetime \<Rightarrow> pydict" where
  "rt_result date_str reference target ref =
     (let delta = dt_sub target ref;
          total_secs = total_seconds delta;
          is_future = (total_secs > 0);
          abs_seconds = \<bar>total_secs\<bar>;
          days = py_int (floordiv abs_seconds 86400);
          hours = py_int (floordiv (pymod abs_seconds 86400) 3600);
          minutes = py_int (floordiv (pymod abs_seconds 3600) 60);
          seconds = py_int (pymod abs_seconds 60);
          desc = build_desc days hours minutes seconds;
          relative = (if is_future then ''in '' @ desc else desc @ '' ago'');
          relative = (if abs_seconds < 1 then ''now'' else relative)
      in [(''target'', VStr date_str),
          (''target_day_of_week'', VStr (strftime_A target)),
          (''reference'', VStr (if truthy reference then the reference else ''now'')),
          (''relative'', VStr relative),
          (''days_difference'', VInt (td_days delta)),
          (''total_seconds'', VInt (py_int total_secs))])"

text \<open>The tool. \<^verbatim>\<open>now\<close> is what \<^verbatim>\<open>datetime.now()\<close> returns if it is called; it is called
  on line 97 only. A \<^verbatim>\<open>datetime\<close> object is always true, so \<^verbatim>\<open>if not target\<close> tests for
  \<^verbatim>\<open>None\<close>.\<close>

definition relative_time :: "datetime \<Rightarrow> string \<Rightarrow> string option \<Rightarrow> outcome" where
  "relative_time now date_str reference =
     (case try_formats rt_formats date_str of
        None \<Rightarrow>
          Returned [(''error'', VStr (''Invalid date format: '' @ date_str @
                                     ''. Use YYYY-MM-DD or YYYY-MM-DDTHH:MM:SS.''))]
      | Some target \<Rightarrow>
          if truthy reference then
            (case try_formats rt_formats (the reference) of
               None \<Rightarrow>
                 Returned [(''error'', VStr (''Invalid reference date format: '' @ the reference))]
             | Some ref \<Rightarrow> Returned (rt_result date_str reference target ref))
          else Returned (rt_result date_str reference target now))"

text \<open>The wall-clock reading of a datetime in whole seconds, counted from the start of
  day 0 of the proleptic calendar. The signed delta of two parsed datetimes is the
  difference of their readings.\<close>

definition wall_seconds :: "datetime \<Rightarrow> int" where
  "wall_seconds t = toordinal t * 86400 + dt_hour t * 3600 + dt_minute t * 60 + dt_second t"

text \<open>The same reading in microseconds; the clock has microseconds, a parsed text has
  none.\<close>

definition wall_micros :: "datetime \<Rightarrow> int" where
  "wall_micros t = wall_seconds t * 1000000 + dt_microsecond t"

text \<open>The rule of the specification (section 4.4, steps 2 and 3), written from its words
  for comparison with \<^const>\<open>build_desc\<close>: the magnitude in whole seconds is decomposed with
  a 24h/60m/60s model and exactly one tier is chosen, largest first.\<close>

datatype tier = Years | Months | Weeks | Days | Hours | Minutes | Seconds

definition spec_tier :: "int \<Rightarrow> tier \<times> int" where
  "spec_tier magnitude =
     (let days = magnitude div 86400;
          hours = magnitude mod 86400 div 3600;
          minutes = magnitude mod 3600 div 60;
          seconds = magnitude mod 60
      in if days \<ge> 365 then (Years, days div 365)
         else if days \<ge> 30 then (Months, days div 30)
         else if days \<ge> 7 then (Weeks, days div 7)
         else if days \<ge> 1 then (Days, days)
         else if hours > 0 then (Hours, hours)
         else if minutes > 0 then (Minutes, minutes)
         else (Seconds, seconds))"

fun singular :: "tier \<Rightarrow> string" where
  "singular Years = ''year''"
| "singular Months = ''month''"
| "singular Weeks = ''week''"
| "singular Days = ''day''"
| "singular Hours = ''hour''"
| "singular Minutes = ''minute''"
| "singular Seconds = ''second''"

definition plural :: "tier \<Rightarrow> string" where
  "plural u = singular u @ ''s''"

definition unit_word :: "tier \<Rightarrow> int \<Rightarrow> string" where
  "unit_word u v = (if v = 1 then singular u else plural u)"

text \<open>The phrase for a signed delta given in microseconds, as lines 99 to 138 compute it:
  the components are those of the magnitude cut to whole seconds.\<close>

definition phrase_micros :: "int \<Rightarrow> string" where
  "phrase_micros mu =
     (let a = \<bar>mu\<bar> div 1000000;
          desc = build_desc (a div 86400) (a mod 86400 div 3600) (a mod 3600 div 60) (a mod 60)
      in if \<bar>mu\<bar> < 1000000 then ''now'' else if mu > 0 then ''in '' @ desc else desc @ '' ago'')"

text \<open>Two readings of the clock, used to run the tools on concrete inputs.\<close>

definition clock_a :: datetime where
  "clock_a = \<lparr>dt_year = 2026, dt_month = 11, dt_day = 4, dt_hour = 12, dt_minute = 0,
              dt_second = 0, dt_microsecond = 250000\<rparr>"

definition clock_b :: datetime where
  "clock_b = \<lparr>dt_year = 2024, dt_month = 2, dt_day = 29, dt_hour = 23, dt_minute = 59,
              dt_second = 59, dt_microsecond = 999999\<rparr>"

subsection \<open>More of \<^verbatim>\<open>datetime\<close>: ordinals back to dates, adding a span, formatting\<close>

text \<open>\<^verbatim>\<open>_ord2ymd\<close> of \<^verbatim>\<open>_pydatetime.py\<close> (\<^verbatim>\<open>_DI400Y = 146097\<close>, \<^verbatim>\<open>_DI100Y = 36524\<close>,
  \<^verbatim>\<open>_DI4Y = 1461\<close>; \<^verbatim>\<open>(n + 50) >> 5\<close> is a division by 32).\<close>

definition py_ord2ymd :: "int \<Rightarrow> int \<times> int \<times> int" where
  "py_ord2ymd ordinal =
     (let n = ordinal - 1;
          n400 = n div 146097; n = n mod 146097;
          year = n400 * 400 + 1;
          n100 = n div 36524; n = n mod 36524;
          n4 = n div 1461; n = n mod 1461;
          n1 = n div 365; n = n mod 365;
          year = year + n100 * 100 + n4 * 4 + n1
      in if n1 = 4 \<or> n100 = 4 then (year - 1, 12, 31)
         else
           (let leapyear = (n1 = 3 \<and> (n4 \<noteq> 24 \<or> n100 = 3));
                month = (n + 50) div 32;
                preceding = DAYS_BEFORE_MONTH ! nat month + (if month > 2 \<and> leapyear then 1 else 0)
            in if preceding > n then
                 (let month = month - 1;
                      preceding = preceding -
                        (DAYS_IN_MONTH ! nat month + (if month = 2 \<and> leapyear then 1 else 0))
                  in (year, month, n - preceding + 1))
               else (year, month, n - preceding + 1)))"

text \<open>\<^verbatim>\<open>datetime.__add__\<close> with a span of whole seconds (\<^verbatim>\<open>self + timedelta(seconds=k)\<close>):
  \<^verbatim>\<open>OverflowError\<close> when the day leaves \<^verbatim>\<open>1 .. _MAXORDINAL\<close> (31 December 9999).\<close>

definition MAXORDINAL :: int where
  "MAXORDINAL = 3652059"

definition dt_add_seconds :: "datetime \<Rightarrow> int \<Rightarrow> pyexc + datetime" where
  "dt_add_seconds self k =
     (let delta = mk_timedelta (toordinal self)
                    (dt_hour self * 3600 + dt_minute self * 60 + dt_second self + k)
                    (dt_microsecond self);
          hour = td_seconds delta div 3600;
          rem = td_seconds delta mod 3600;
          minute = rem div 60;
          second = rem mod 60
      in if 0 < td_days delta \<and> td_days delta \<le> MAXORDINAL then
           (case py_ord2ymd (td_days delta) of
              (y, m, d) \<Rightarrow>
                Inr \<lparr>dt_year = y, dt_month = m, dt_day = d, dt_hour = hour, dt_minute = minute,
                     dt_second = second, dt_microsecond = td_microseconds delta\<rparr>)
         else Inl OverflowError)"

text \<open>\<^verbatim>\<open>strftime\<close> with the formats the server uses, in the C locale. \<^verbatim>\<open>%Y\<close> is written with
  four digits, as the library documents it (the C library's own \<^verbatim>\<open>strftime\<close> decides for
  years below 1000).\<close>

definition month_names :: "string list" where
  "month_names = [''January'', ''February'', ''March'', ''April'', ''May'', ''June'', ''July'',
                  ''August'', ''September'', ''October'', ''November'', ''December'']"

definition strftime_B :: "datetime \<Rightarrow> string" where
  "strftime_B t = month_names ! nat (dt_month t - 1)"

definition strftime_date :: "datetime \<Rightarrow> string" where \<comment> \<open>\<^verbatim>\<open>"%Y-%m-%d"\<close>\<close>
  "strftime_date t = pad4 (dt_year t) @ ''-'' @ pad2 (dt_month t) @ ''-'' @ pad2 (dt_day t)"

definition strftime_time :: "datetime \<Rightarrow> string" where \<comment> \<open>\<^verbatim>\<open>"%H:%M:%S"\<close>\<close>
  "strftime_time t = pad2 (dt_hour t) @ '':'' @ pad2 (dt_minute t) @ '':'' @ pad2 (dt_second t)"

definition strftime_datetime :: "datetime \<Rightarrow> string" where \<comment> \<open>\<^verbatim>\<open>"%Y-%m-%d %H:%M:%S"\<close>\<close>
  "strftime_datetime t = strftime_date t @ '' '' @ strftime_time t"

definition strftime_human :: "datetime \<Rightarrow> string" where \<comment> \<open>\<^verbatim>\<open>"%A, %B %d, %Y at %I:%M %p"\<close>\<close>
  "strftime_human t =
     strftime_A t @ '', '' @ strftime_B t @ '' '' @ pad2 (dt_day t) @ '', '' @ pad4 (dt_year t) @
     '' at '' @ pad2 (if dt_hour t mod 12 = 0 then 12 else dt_hour t mod 12) @ '':'' @
     pad2 (dt_minute t) @ '' '' @ (if dt_hour t < 12 then ''AM'' else ''PM'')"

text \<open>\<^verbatim>\<open>_format_offset\<close> for an offset of whole seconds: \<^verbatim>\<open>+HHMM\<close>, and the seconds when
  they are not zero; \<^verbatim>\<open>sep\<close> is empty for \<^verbatim>\<open>%z\<close> and a colon for \<^verbatim>\<open>isoformat\<close>.\<close>

definition format_offset :: "int \<Rightarrow> string \<Rightarrow> string" where
  "format_offset off sep =
     (let sign = (if off < 0 then ''-'' else ''+'');
          a = \<bar>off\<bar>;
          hh = a div 3600;
          mm = a mod 3600 div 60;
          ss = a mod 60
      in sign @ pad2 hh @ sep @ pad2 mm @ (if ss \<noteq> 0 then sep @ pad2 ss else []))"

definition pad6 :: "int \<Rightarrow> string" where
  "pad6 i = [digit_char (nat i div 100000 mod 10), digit_char (nat i div 10000 mod 10),
             digit_char (nat i div 1000 mod 10), digit_char (nat i div 100 mod 10),
             digit_char (nat i div 10 mod 10), digit_char (nat i mod 10)]"

subsection \<open>Time zones\<close>

text \<open>
  A \<^verbatim>\<open>tzinfo\<close> object, as far as the server uses one: its \<^verbatim>\<open>str\<close>, the offset
  \<^verbatim>\<open>utcoffset(dt)\<close> it gives to a wall-clock reading (with \<^verbatim>\<open>fold = 0\<close>, which is what
  \<^verbatim>\<open>strptime\<close> and \<^verbatim>\<open>replace\<close> produce), and the offset in force at a UTC instant, which
  \<^verbatim>\<open>fromutc\<close> adds. Offsets are whole seconds; instants and readings are given in seconds
  as \<^const>\<open>wall_seconds\<close> counts them. The time-zone database is not part of the
  repository: \<^verbatim>\<open>ZoneInfo(key)\<close> is a parameter of the tools that build zones, returning the
  zone or the text of the exception it raises.
\<close>

record tzinfo =
  tz_str :: string
  utcoffset_wall :: "int \<Rightarrow> int"
  utcoffset_utc :: "int \<Rightarrow> int"

definition timezone_utc :: tzinfo where
  "timezone_utc = \<lparr>tz_str = ''UTC'', utcoffset_wall = (\<lambda>_. 0), utcoffset_utc = (\<lambda>_. 0)\<rparr>"

type_synonym zonedb = "string \<Rightarrow> string + tzinfo"

text \<open>\<^verbatim>\<open>ZoneInfo(tz) if tz != "UTC" else timezone.utc\<close>.\<close>

definition resolve_zone :: "zonedb \<Rightarrow> string \<Rightarrow> string + tzinfo" where
  "resolve_zone ZoneInfo tz = (if tz \<noteq> ''UTC'' then ZoneInfo tz else Inr timezone_utc)"

text \<open>
  \<^verbatim>\<open>source_dt.astimezone(target_zone)\<close> for \<^verbatim>\<open>source_dt = dt.replace(tzinfo=source_zone)\<close>.
  \<^verbatim>\<open>same\<close> says that both zones are one object (\<^verbatim>\<open>tz is mytz\<close>), in which case the datetime
  is returned as it is. Otherwise the reading is taken to UTC with the offset its zone gives
  it and \<^verbatim>\<open>fromutc\<close> of the target zone adds the offset in force at that instant; either
  addition raises \<^verbatim>\<open>OverflowError\<close> outside the years 1 to 9999. The result is the new
  reading with its offset.
\<close>

definition astimezone :: "datetime \<Rightarrow> tzinfo \<Rightarrow> tzinfo \<Rightarrow> bool \<Rightarrow> pyexc + (datetime \<times> int)" where
  "astimezone self mytz tz same =
     (let myoffset = utcoffset_wall mytz (wall_seconds self)
      in if same then Inr (self, myoffset)
         else
           (case dt_add_seconds self (- myoffset) of
              Inl e \<Rightarrow> Inl e
            | Inr utc \<Rightarrow>
                (let off = utcoffset_utc tz (wall_seconds utc)
                 in case dt_add_seconds utc off of
                      Inl e \<Rightarrow> Inl e
                    | Inr local \<Rightarrow> Inr (local, off))))"

subsection \<open>\<^verbatim>\<open>days_in_month\<close>\<close>

text \<open>\<^verbatim>\<open>x or d\<close> for an optional integer argument: \<^verbatim>\<open>None\<close> and \<^verbatim>\<open>0\<close> are false.\<close>

fun int_or :: "int option \<Rightarrow> int \<Rightarrow> int" where
  "int_or None d = d"
| "int_or (Some x) d = (if x = 0 then d else x)"

text \<open>\<^verbatim>\<open>calendar.monthrange(year, month)\<close> for a month in 1..12 (the tool has checked it):
  the weekday of the first day, for which \<^verbatim>\<open>calendar.weekday\<close> moves a year outside
  1..9999 to \<^verbatim>\<open>2000 + year % 400\<close>, and the number of days.\<close>

definition mdays :: "int list" where
  "mdays = [0, 31, 28, 31, 30, 31, 30, 31, 31, 30, 31, 30, 31]"

definition isleap :: "int \<Rightarrow> bool" where
  "isleap year = (year mod 4 = 0 \<and> (year mod 100 \<noteq> 0 \<or> year mod 400 = 0))"

definition monthrange :: "int \<Rightarrow> int \<Rightarrow> int \<times> int" where
  "monthrange year month =
     (let y = (if \<not> (1 \<le> year \<and> year \<le> 9999) then 2000 + year mod 400 else year);
          day1 = (py_ymd2ord y month 1 + 6) mod 7;
          ndays = mdays ! nat month + (if month = 2 \<and> isleap year then 1 else 0)
      in (day1, ndays))"

text \<open>The tool; \<^verbatim>\<open>now\<close> is what \<^verbatim>\<open>datetime.now()\<close> returns on line 162. The two calls of the
  constructor \<^verbatim>\<open>datetime(year, month, day)\<close> raise \<^verbatim>\<open>ValueError\<close> for a year outside
  1..9999, and nothing catches it.\<close>

definition days_in_month :: "datetime \<Rightarrow> int option \<Rightarrow> int option \<Rightarrow> outcome" where
  "days_in_month now year_arg month_arg =
     (let year = int_or year_arg (dt_year now);
          month = int_or month_arg (dt_month now)
      in if \<not> (1 \<le> month \<and> month \<le> 12) then
           Returned [(''error'', VStr (''Invalid month: '' @ str_int month @ ''. Must be 1-12.''))]
         else
           (case monthrange year month of
              (first_weekday, num_days) \<Rightarrow>
                (case mk_datetime year month 1 0 0 0 0 of
                   None \<Rightarrow> Raised ValueError
                 | Some first_day \<Rightarrow>
                     (case mk_datetime year month num_days 0 0 0 0 of
                        None \<Rightarrow> Raised ValueError
                      | Some last_day \<Rightarrow>
                          Returned
                            [(''year'', VInt year),
                             (''month'', VInt month),
                             (''month_name'', VStr (strftime_B first_day)),
                             (''days_in_month'', VInt num_days),
                             (''first_day'',
                                VDict [(''date'', VStr (strftime_date first_day)),
                                       (''day_of_week'', VStr (strftime_A first_day))]),
                             (''last_day'',
                                VDict [(''date'', VStr (strftime_date last_day)),
                                       (''day_of_week'', VStr (strftime_A last_day))]),
                             (''is_leap_year'',
                                VBool (year mod 4 = 0 \<and> (year mod 100 \<noteq> 0 \<or> year mod 400 = 0)))]))))"

subsection \<open>\<^verbatim>\<open>convert_time\<close>\<close>

definition ct_formats :: "string list" where
  "ct_formats = [''%Y-%m-%d %H:%M:%S'', ''%Y-%m-%dT%H:%M:%S'', ''%Y-%m-%d'']"

text \<open>Both zones are built inside one \<^verbatim>\<open>try\<close>; the message carries the text of the
  exception. \<^verbatim>\<open>ZoneInfo\<close> hands out one object per key and \<^verbatim>\<open>timezone.utc\<close> is one object,
  so the two zones are the same object exactly when the two names are equal. The call of
  \<^verbatim>\<open>astimezone\<close> on line 227 is outside the \<^verbatim>\<open>try\<close>.\<close>

definition convert_time :: "zonedb \<Rightarrow> string \<Rightarrow> string \<Rightarrow> string \<Rightarrow> outcome" where
  "convert_time ZoneInfo time_str from_tz to_tz =
     (case try_formats ct_formats time_str of
        None \<Rightarrow> Returned [(''error'', VStr (''Invalid time format: '' @ time_str))]
      | Some dt \<Rightarrow>
          (case resolve_zone ZoneInfo from_tz of
             Inl e \<Rightarrow> Returned [(''error'', VStr (''Invalid timezone: '' @ e))]
           | Inr source_zone \<Rightarrow>
               (case resolve_zone ZoneInfo to_tz of
                  Inl e \<Rightarrow> Returned [(''error'', VStr (''Invalid timezone: '' @ e))]
                | Inr target_zone \<Rightarrow>
                    (case astimezone dt source_zone target_zone (from_tz = to_tz) of
                       Inl exc \<Rightarrow> Raised exc
                     | Inr (target_dt, target_off) \<Rightarrow>
                         Returned
                           [(''from'',
                               VDict [(''day_of_week'', VStr (strftime_A dt)),
                                      (''datetime'', VStr (strftime_datetime dt)),
                                      (''timezone'', VStr from_tz),
                                      (''utc_offset'',
                                         VStr (format_offset
                                                 (utcoffset_wall source_zone (wall_seconds dt)) []))]),
                            (''to'',
                               VDict [(''day_of_week'', VStr (strftime_A target_dt)),
                                      (''datetime'', VStr (strftime_datetime target_dt)),
                                      (''timezone'', VStr to_tz),
                                      (''utc_offset'', VStr (format_offset target_off []))])]))))"

subsection \<open>\<^verbatim>\<open>get_week_year\<close>\<close>

text \<open>\<^verbatim>\<open>timetuple().tm_yday\<close>, \<^verbatim>\<open>isoweekday()\<close>, \<^verbatim>\<open>_isoweek1monday\<close> and \<^verbatim>\<open>isocalendar()\<close>
  (its first two components).\<close>

definition tm_yday :: "datetime \<Rightarrow> int" where
  "tm_yday t = py_days_before_month (dt_year t) (dt_month t) + dt_day t"

definition isoweekday :: "datetime \<Rightarrow> int" where
  "isoweekday t = (if toordinal t mod 7 = 0 then 7 else toordinal t mod 7)"

definition isoweek1monday :: "int \<Rightarrow> int" where
  "isoweek1monday year =
     (let firstday = py_ymd2ord year 1 1;
          firstweekday = (firstday + 6) mod 7;
          week1monday = firstday - firstweekday
      in if firstweekday > 3 then week1monday + 7 else week1monday)"

definition isocalendar :: "datetime \<Rightarrow> int \<times> int" where
  "isocalendar t =
     (let year = dt_year t;
          week1monday = isoweek1monday year;
          today = py_ymd2ord (dt_year t) (dt_month t) (dt_day t);
          week = (today - week1monday) div 7
      in if week < 0 then
           (let year = year - 1;
                week1monday = isoweek1monday year;
                week = (today - week1monday) div 7
            in (year, week + 1))
         else if week \<ge> 52 \<and> today \<ge> isoweek1monday (year + 1) then (year + 1, 0 + 1)
         else (year, week + 1))"

text \<open>Lines 264 to 277, once \<^verbatim>\<open>dt\<close> is known.\<close>

definition gwy_result :: "datetime \<Rightarrow> pydict" where
  "gwy_result dt =
     (let iso_cal = isocalendar dt
      in [(''date'', VStr (strftime_date dt)),
          (''day_of_week'', VStr (strftime_A dt)),
          (''day_of_week_number'', VInt (isoweekday dt)),
          (''week_number'', VInt ((tm_yday dt - 1) div 7 + 1)),
          (''iso_week'', VInt (snd iso_cal)),
          (''iso_year'', VInt (fst iso_cal)),
          (''day_of_year'', VInt (tm_yday dt)),
          (''days_remaining_in_year'',
             VInt (td_days (dt_sub \<lparr>dt_year = dt_year dt, dt_month = 12, dt_day = 31, dt_hour = 0,
                                     dt_minute = 0, dt_second = 0, dt_microsecond = 0\<rparr> dt))),
          (''is_weekend'', VBool (isoweekday dt \<ge> 6)),
          (''quarter'', VInt ((dt_month dt - 1) div 3 + 1))])"

definition get_week_year :: "datetime \<Rightarrow> string option \<Rightarrow> outcome" where
  "get_week_year now date_str =
     (if truthy date_str then
        (case strptime (the date_str) ''%Y-%m-%d'' of
           None \<Rightarrow>
             Returned [(''error'', VStr (''Invalid date format: '' @ the date_str @
                                        ''. Use YYYY-MM-DD.''))]
         | Some dt \<Rightarrow> Returned (gwy_result dt))
      else Returned (gwy_result now))"

subsection \<open>\<^verbatim>\<open>get_datetime\<close>\<close>

text \<open>
  The clock of this tool is the current instant as a UTC reading. \<^verbatim>\<open>datetime.now(zone)\<close> is
  \<^verbatim>\<open>zone.fromutc\<close> of it; \<^verbatim>\<open>datetime.now().astimezone()\<close> is the same in the local zone of
  the process, with a fixed-offset \<^verbatim>\<open>timezone\<close> whose \<^verbatim>\<open>str\<close> is the local zone's name.
  Any exception inside the \<^verbatim>\<open>try\<close> of lines 28 to 32 becomes the error dict.
\<close>

definition now_in :: "datetime \<Rightarrow> tzinfo \<Rightarrow> pyexc + (datetime \<times> int)" where
  "now_in utcnow zone =
     (let off = utcoffset_utc zone (wall_seconds utcnow)
      in case dt_add_seconds utcnow off of Inl e \<Rightarrow> Inl e | Inr local \<Rightarrow> Inr (local, off))"

definition EPOCH :: datetime where
  "EPOCH = \<lparr>dt_year = 1970, dt_month = 1, dt_day = 1, dt_hour = 0, dt_minute = 0, dt_second = 0,
            dt_microsecond = 0\<rparr>"

text \<open>\<^verbatim>\<open>now.isoformat()\<close> and \<^verbatim>\<open>int(now.timestamp())\<close> of an aware datetime with offset
  \<^verbatim>\<open>off\<close>.\<close>

definition isoformat :: "datetime \<Rightarrow> int \<Rightarrow> string" where
  "isoformat t off =
     strftime_date t @ ''T'' @ strftime_time t @
     (if dt_microsecond t \<noteq> 0 then ''.'' @ pad6 (dt_microsecond t) else []) @
     format_offset off '':''"

definition unix_timestamp :: "datetime \<Rightarrow> int \<Rightarrow> int" where
  "unix_timestamp t off =
     py_int (of_int (wall_micros t - off * 1000000 - wall_micros EPOCH) / 1000000)"

definition gdt_result :: "string option \<Rightarrow> datetime \<Rightarrow> int \<Rightarrow> string \<Rightarrow> pydict" where
  "gdt_result format now off tzname =
     (let day_of_week = strftime_A now
      in if format = Some ''iso8601'' then
           [(''day_of_week'', VStr day_of_week), (''iso8601'', VStr (isoformat now off))]
         else if format = Some ''unix'' then
           [(''day_of_week'', VStr day_of_week), (''unix_timestamp'', VInt (unix_timestamp now off))]
         else if format = Some ''human'' then
           [(''day_of_week'', VStr day_of_week), (''human_readable'', VStr (strftime_human now))]
         else
           [(''day_of_week'', VStr day_of_week),
            (''date'', VStr (strftime_date now)),
            (''time'', VStr (strftime_time now)),
            (''timezone'', VStr tzname),
            (''utc_offset'', VStr (format_offset off [])),
            (''iso8601'', VStr (isoformat now off)),
            (''unix_timestamp'', VInt (unix_timestamp now off)),
            (''human_readable'', VStr (strftime_human now))])"

definition get_datetime :: "zonedb \<Rightarrow> tzinfo \<Rightarrow> datetime \<Rightarrow> string option \<Rightarrow> string option \<Rightarrow> outcome" where
  "get_datetime ZoneInfo local_zone utcnow tz format =
     (if truthy tz then
        (case resolve_zone ZoneInfo (the tz) of
           Inl e \<Rightarrow> Returned [(''error'', VStr (''Invalid timezone: '' @ the tz))]
         | Inr zone \<Rightarrow>
             (case now_in utcnow zone of
                Inl e \<Rightarrow> Returned [(''error'', VStr (''Invalid timezone: '' @ the tz))]
              | Inr (now, off) \<Rightarrow> Returned (gdt_result format now off (tz_str zone))))
      else
        (case now_in utcnow local_zone of
           Inl e \<Rightarrow> Raised e
         | Inr (now, off) \<Rightarrow> Returned (gdt_result format now off (tz_str local_zone))))"

subsection \<open>The calendar rule of the specification, and inputs to run the tools on\<close>

text \<open>The rule of the specification (section 4.3), written from its words for comparison
  with what \<^const>\<open>days_in_month\<close> returns: the Gregorian table, with 29 days in February of
  a leap year.\<close>

definition spec_is_leap_year :: "int \<Rightarrow> bool" where
  "spec_is_leap_year year = (year mod 4 = 0 \<and> (year mod 100 \<noteq> 0 \<or> year mod 400 = 0))"

definition spec_days_in_month :: "int \<Rightarrow> int \<Rightarrow> int" where
  "spec_days_in_month year month =
     (if month = 2 then (if spec_is_leap_year year then 29 else 28)
      else if month = 4 \<or> month = 6 \<or> month = 9 \<or> month = 11 then 30
      else 31)"

text \<open>A datetime without microseconds, and a small time-zone database to run the tools on:
  New York with the two transitions of 2025 (daylight time from 9 March 07:00 UTC to
  2 November 06:00 UTC; \<^verbatim>\<open>ZoneInfo\<close> with \<^verbatim>\<open>fold = 0\<close> reads a wall clock before 03:00 on
  9 March as standard time and before 02:00 on 2 November as daylight time), and Tokyo,
  nine hours ahead of UTC all year.\<close>

definition dtm :: "int \<Rightarrow> int \<Rightarrow> int \<Rightarrow> int \<Rightarrow> int \<Rightarrow> int \<Rightarrow> datetime" where
  "dtm y m d h mi s =
     \<lparr>dt_year = y, dt_month = m, dt_day = d, dt_hour = h, dt_minute = mi, dt_second = s,
      dt_microsecond = 0\<rparr>"

definition new_york :: tzinfo where
  "new_york =
     \<lparr>tz_str = ''America/New_York'',
      utcoffset_wall =
        (\<lambda>w. if wall_seconds (dtm 2025 3 9 3 0 0) \<le> w \<and> w < wall_seconds (dtm 2025 11 2 2 0 0)
              then - 14400 else - 18000),
      utcoffset_utc =
        (\<lambda>u. if wall_seconds (dtm 2025 3 9 7 0 0) \<le> u \<and> u < wall_seconds (dtm 2025 11 2 6 0 0)
              then - 14400 else - 18000)\<rparr>"

definition tokyo :: tzinfo where
  "tokyo = \<lparr>tz_str = ''Asia/Tokyo'', utcoffset_wall = (\<lambda>_. 32400), utcoffset_utc = (\<lambda>_. 32400)\<rparr>"

definition example_zones :: zonedb where
  "example_zones key =
     (if key = ''America/New_York'' then Inr new_york
      else if key = ''Asia/Tokyo'' then Inr tokyo
      else Inl (''No time zone found with key '' @ key))"

text \<open>The names of the groups of a pattern, in order; and the shape the specification
  asks of every returned dict (section 6): the single field \<^verbatim>\<open>error\<close>, or no such key.\<close>

fun group_names :: "item list \<Rightarrow> string" where
  "group_names [] = []"
| "group_names (Plain r # its) = group_names its"
| "group_names (Group d r # its) = d # group_names its"

definition dict_shape :: "pydict \<Rightarrow> bool" where
  "dict_shape d = ((\<exists>msg. d = [(''error'', VStr msg)]) \<or> ''error'' \<notin> set (keys d))"




section \<open>Properties of the embedding\<close>

subsection \<open>Parsed datetimes\<close>

lemma strptime_Some:
  assumes "strptime s fmt = Some t"
  shows "valid_datetime t \<and> dt_microsecond t = 0"
  using assms
  by (auto simp: strptime_def mk_datetime_def valid_datetime_def check_time_fields_def
      split: option.splits list.splits if_splits prod.splits)

lemma try_formats_Some:
  "try_formats fmts s = Some t \<Longrightarrow> valid_datetime t \<and> dt_microsecond t = 0"
  by (induction fmts) (auto split: option.splits dest: strptime_Some)

subsection \<open>The delta of two datetimes\<close>

lemma py_int_of_int: "py_int (of_int a) = a"
  by (simp add: py_int_def)

lemma mk_timedelta_total:
  "(td_days (mk_timedelta d s us) * 86400 + td_seconds (mk_timedelta d s us)) * 1000000
     + td_microseconds (mk_timedelta d s us) = (d * 86400 + s) * 1000000 + us"
proof -
  define s1 where "s1 = s + us div 1000000"
  have a: "(d + s1 div 86400) * 86400 + s1 mod 86400 = d * 86400 + s1"
    by (simp add: algebra_simps)
  have b: "s1 * 1000000 + us mod 1000000 = s * 1000000 + us"
    by (simp add: s1_def algebra_simps)
  have "((d + s1 div 86400) * 86400 + s1 mod 86400) * 1000000 + us mod 1000000
          = (d * 86400 + s) * 1000000 + us"
    unfolding a using b by (simp add: algebra_simps)
  then show ?thesis
    by (simp add: mk_timedelta_def Let_def s1_def)
qed

lemma total_seconds_dt_sub:
  "total_seconds (dt_sub t r) = of_int (wall_micros t - wall_micros r) / 1000000"
proof -
  have e: "total_seconds (mk_timedelta d s us) = of_int ((d * 86400 + s) * 1000000 + us) / 1000000"
    for d s us
    using mk_timedelta_total[of d s us] by (simp add: total_seconds_def)
  have "(toordinal t - toordinal r) * 86400
          + (dt_second t + dt_minute t * 60 + dt_hour t * 3600
             - (dt_second r + dt_minute r * 60 + dt_hour r * 3600)) =
        wall_seconds t - wall_seconds r"
    by (simp add: wall_seconds_def algebra_simps)
  then have "((toordinal t - toordinal r) * 86400
          + (dt_second t + dt_minute t * 60 + dt_hour t * 3600
             - (dt_second r + dt_minute r * 60 + dt_hour r * 3600))) * 1000000
          + (dt_microsecond t - dt_microsecond r) = wall_micros t - wall_micros r"
    by (simp add: wall_micros_def algebra_simps)
  then show ?thesis
    unfolding dt_sub_def Let_def e by simp
qed

lemma floordiv_micros:
  "floordiv (of_int m / 1000000) (numeral n) = of_int (m div (1000000 * numeral n))"
proof -
  have "(of_int m :: rat) / 1000000 / numeral n = of_int m / of_int (1000000 * numeral n)"
    by simp
  then show ?thesis
    unfolding floordiv_def by (simp only: floor_divide_of_int_eq)
qed

lemma pymod_micros:
  "pymod (of_int m / 1000000) (numeral n) = of_int (m mod (1000000 * numeral n)) / 1000000"
proof -
  define k :: int where "k = 1000000 * numeral n"
  have q: "\<lfloor>(of_int m :: rat) / 1000000 / numeral n\<rfloor> = m div k"
  proof -
    have "(of_int m :: rat) / 1000000 / numeral n = of_int m / of_int k"
      by (simp add: k_def)
    then show ?thesis by (simp only: floor_divide_of_int_eq)
  qed
  have "m mod k = m - k * (m div k)"
    by (simp add: minus_mult_div_eq_mod)
  then have "(of_int (m mod k) :: rat) = of_int m - of_int k * of_int (m div k)"
    by simp
  then have "(of_int (m mod k) :: rat) / 1000000 = of_int m / 1000000 - numeral n * of_int (m div k)"
    by (simp add: k_def field_simps)
  then show ?thesis
    unfolding pymod_def q k_def[symmetric] by simp
qed

lemma py_int_micros: "0 \<le> m \<Longrightarrow> py_int (of_int m / 1000000) = m div 1000000"
proof -
  assume "0 \<le> m"
  then have "\<not> (of_int m / 1000000 :: rat) < 0" by simp
  moreover have "\<lfloor>(of_int m :: rat) / of_int 1000000\<rfloor> = m div 1000000"
    by (simp only: floor_divide_of_int_eq)
  ultimately show ?thesis by (simp add: py_int_def)
qed

lemma components_micros:
  fixes m :: int
  assumes "0 \<le> m"
  shows "m div (1000000 * 86400) = m div 1000000 div 86400"
    and "m mod (1000000 * 86400) div (1000000 * 3600) = m div 1000000 mod 86400 div 3600"
    and "m mod (1000000 * 3600) div (1000000 * 60) = m div 1000000 mod 3600 div 60"
    and "m mod (1000000 * 60) div 1000000 = m div 1000000 mod 60"
proof -
  have r: "0 \<le> m mod 1000000" "m mod 1000000 < 1000000" by simp_all
  show "m div (1000000 * 86400) = m div 1000000 div 86400"
    by (simp add: zdiv_zmult2_eq)
  have g: "(1000000 * q + m mod 1000000) div (1000000 * j) = q div j" if "0 < j" for q j :: int
  proof -
    have "(1000000 * q + m mod 1000000) div (1000000 * j) = (1000000 * q + m mod 1000000) div 1000000 div j"
      using that by (simp add: zdiv_zmult2_eq)
    also have "(1000000 * q + m mod 1000000) div 1000000 = q"
      using r by simp
    finally show ?thesis .
  qed
  have e: "m mod (1000000 * k) = 1000000 * (m div 1000000 mod k) + m mod 1000000" if "0 \<le> k" for k :: int
    using that by (simp add: zmod_zmult2_eq)
  show "m mod (1000000 * 86400) div (1000000 * 3600) = m div 1000000 mod 86400 div 3600"
    using e[of 86400] g[of 3600 "m div 1000000 mod 86400"] by simp
  show "m mod (1000000 * 3600) div (1000000 * 60) = m div 1000000 mod 3600 div 60"
    using e[of 3600] g[of 60 "m div 1000000 mod 3600"] by simp
  show "m mod (1000000 * 60) div 1000000 = m div 1000000 mod 60"
    using e[of 60] g[of 1 "m div 1000000 mod 60"] by simp
qed

lemma rt_result_relative:
  "map_of (rt_result ds refr t r) ''relative'' =
           Some (VStr (phrase_micros (wall_micros t - wall_micros r)))"
proof -
  define mu where "mu = wall_micros t - wall_micros r"
  have ts: "total_seconds (dt_sub t r) = of_int mu / 1000000"
    by (simp add: total_seconds_dt_sub mu_def)
  have ab: "\<bar>of_int mu / 1000000 :: rat\<bar> = of_int \<bar>mu\<bar> / 1000000" by simp
  have lt1: "(of_int \<bar>mu\<bar> / 1000000 :: rat) < 1 \<longleftrightarrow> \<bar>mu\<bar> < 1000000"
  proof -
    have "(of_int \<bar>mu\<bar> :: rat) < of_int 1000000 \<longleftrightarrow> \<bar>mu\<bar> < 1000000"
      by (simp only: of_int_less_iff)
    then show ?thesis by simp
  qed
  have pos: "(0 :: rat) < of_int mu / 1000000 \<longleftrightarrow> 0 < mu" by simp
  have nn: "0 \<le> \<bar>mu\<bar>" by simp
  have nn2: "0 \<le> \<bar>mu\<bar> mod (1000000 * 60)" by simp
  show ?thesis
    unfolding rt_result_def Let_def ts ab mu_def[symmetric] phrase_micros_def
    by (simp only: floordiv_micros pymod_micros py_int_of_int py_int_micros[OF nn2] lt1 pos map_of.simps
        fst_conv snd_conv components_micros[OF nn]) simp
qed


lemma td_days_dt_sub:
  "td_days (dt_sub t r) = (wall_micros t - wall_micros r) div 86400000000"
proof -
  define d where "d = toordinal t - toordinal r"
  define sc where "sc = dt_second t + dt_minute t * 60 + dt_hour t * 3600
                        - (dt_second r + dt_minute r * 60 + dt_hour r * 3600)"
  define us where "us = dt_microsecond t - dt_microsecond r"
  have tot: "wall_micros t - wall_micros r = (d * 86400 + sc) * 1000000 + us"
    by (simp add: wall_micros_def wall_seconds_def d_def sc_def us_def algebra_simps)
  have "((d * 86400 + sc) * 1000000 + us) div (1000000 * 86400)
          = ((d * 86400 + sc) * 1000000 + us) div 1000000 div 86400"
    by (simp add: zdiv_zmult2_eq)
  also have "((d * 86400 + sc) * 1000000 + us) div 1000000 = d * 86400 + sc + us div 1000000"
    by simp
  also have "(d * 86400 + sc + us div 1000000) div 86400 = d + (sc + us div 1000000) div 86400"
    by (simp add: add.assoc)
  finally have "(wall_micros t - wall_micros r) div 86400000000
                  = d + (sc + us div 1000000) div 86400"
    unfolding tot by simp
  moreover have "td_days (dt_sub t r) = d + (sc + us div 1000000) div 86400"
    by (simp add: dt_sub_def mk_timedelta_def Let_def d_def sc_def us_def)
  ultimately show ?thesis by simp
qed

lemma build_desc_spec_tier:
  "build_desc (a div 86400) (a mod 86400 div 3600) (a mod 3600 div 60) (a mod 60) =
     str_int (snd (spec_tier a)) @ '' '' @ unit_word (fst (spec_tier a)) (snd (spec_tier a))"
proof -
  define d where "d = a div 86400"
  define h where "h = a mod 86400 div 3600"
  define m where "m = a mod 3600 div 60"
  define s where "s = a mod 60"
  have tier: "spec_tier a =
      (if d \<ge> 365 then (Years, d div 365)
       else if d \<ge> 30 then (Months, d div 30)
       else if d \<ge> 7 then (Weeks, d div 7)
       else if d \<ge> 1 then (Days, d)
       else if h > 0 then (Hours, h)
       else if m > 0 then (Minutes, m)
       else (Seconds, s))"
    unfolding spec_tier_def Let_def d_def h_def m_def s_def ..
  have "build_desc d h m s =
          str_int (snd (spec_tier a)) @ '' '' @ unit_word (fst (spec_tier a)) (snd (spec_tier a))"
    unfolding tier build_desc_def Let_def unit_word_def plural_def
    by (simp split: if_splits)
  then show ?thesis
    unfolding d_def h_def m_def s_def .
qed

lemma phrase_micros_spec:
  "phrase_micros mu =
     (let u = fst (spec_tier (\<bar>mu\<bar> div 1000000));
          v = snd (spec_tier (\<bar>mu\<bar> div 1000000));
          desc = str_int v @ '' '' @ unit_word u v
      in if \<bar>mu\<bar> < 1000000 then ''now''
         else if mu > 0 then ''in '' @ desc else desc @ '' ago'')"
  unfolding phrase_micros_def Let_def build_desc_spec_tier ..

lemma wall_micros_parsed:
  assumes "dt_microsecond t = 0" "dt_microsecond r = 0"
  shows "wall_micros t - wall_micros r = (wall_seconds t - wall_seconds r) * 1000000"
  using assms by (simp add: wall_micros_def algebra_simps)

lemma phrase_micros_whole:
  "phrase_micros (delta * 1000000) =
     (let u = fst (spec_tier \<bar>delta\<bar>);
          v = snd (spec_tier \<bar>delta\<bar>);
          desc = str_int v @ '' '' @ unit_word u v
      in if delta = 0 then ''now''
         else if delta > 0 then ''in '' @ desc else desc @ '' ago'')"
proof -
  have a: "\<bar>delta * 1000000\<bar> div 1000000 = \<bar>delta\<bar>"
    by (simp add: abs_mult)
  have b: "\<bar>delta * 1000000\<bar> < 1000000 \<longleftrightarrow> delta = 0"
    by (simp add: abs_mult)
  have c: "delta * 1000000 > 0 \<longleftrightarrow> delta > 0"
    by simp
  show ?thesis
    unfolding phrase_micros_spec a b c ..
qed

lemma relative_time_parsed:
  assumes "try_formats rt_formats date_str = Some target"
    and "reference \<noteq> []"
    and "try_formats rt_formats reference = Some ref"
  shows "relative_time now date_str (Some reference) =
           Returned (rt_result date_str (Some reference) target ref)"
  using assms by (simp add: relative_time_def)

lemma relative_field_parsed:
  assumes "try_formats rt_formats date_str = Some target"
    and "reference \<noteq> []"
    and "try_formats rt_formats reference = Some ref"
  shows "field (relative_time now date_str (Some reference)) ''relative'' =
           Some (VStr (phrase_micros ((wall_seconds target - wall_seconds ref) * 1000000)))"
proof -
  have us: "dt_microsecond target = 0" "dt_microsecond ref = 0"
    using assms try_formats_Some by blast+
  show ?thesis
    unfolding relative_time_parsed[OF assms] field.simps rt_result_relative
      wall_micros_parsed[OF us] ..
qed

subsection \<open>Concrete inputs\<close>

lemma parse_2025_01_08:
  "try_formats rt_formats ''2025-01-08'' =
     Some \<lparr>dt_year = 2025, dt_month = 1, dt_day = 8, dt_hour = 0, dt_minute = 0,
            dt_second = 0, dt_microsecond = 0\<rparr>"
  by code_simp

lemma parse_2025_01_01:
  "try_formats rt_formats ''2025-01-01'' =
     Some \<lparr>dt_year = 2025, dt_month = 1, dt_day = 1, dt_hour = 0, dt_minute = 0,
            dt_second = 0, dt_microsecond = 0\<rparr>"
  by code_simp

lemma parse_2025_01_07_235959:
  "try_formats rt_formats ''2025-01-07T23:59:59'' =
     Some \<lparr>dt_year = 2025, dt_month = 1, dt_day = 7, dt_hour = 23, dt_minute = 59,
            dt_second = 59, dt_microsecond = 0\<rparr>"
  by code_simp

lemma parse_2026_11_04_120000:
  "try_formats rt_formats ''2026-11-04T12:00:00'' =
     Some \<lparr>dt_year = 2026, dt_month = 11, dt_day = 4, dt_hour = 12, dt_minute = 0,
            dt_second = 0, dt_microsecond = 0\<rparr>"
  by code_simp

lemma parse_2026_11_04_120001:
  "try_formats rt_formats ''2026-11-04T12:00:01'' =
     Some \<lparr>dt_year = 2026, dt_month = 11, dt_day = 4, dt_hour = 12, dt_minute = 0,
            dt_second = 1, dt_microsecond = 0\<rparr>"
  by code_simp

section \<open>\<^verbatim>\<open>relative_time\<close>: the claims\<close>

text \<open>
  \<^bold>\<open>Claim C1\<close> says that \<^verbatim>\<open>days_difference\<close> is the whole-day part of the signed delta
  cut towards zero, so that it is 0 for every delta strictly between -86400 and 0
  seconds. The tool returns \<^verbatim>\<open>delta.days\<close>, and \<^verbatim>\<open>timedelta\<close> keeps a negative span as
  negative days plus a non-negative rest (lemma \<open>td_days_dt_sub\<close>: the quotient is
  floored). For a target one hour before the reference the tool answers
  \<^verbatim>\<open>days_difference = -1\<close>, next to the phrase "1 hour ago" and \<^verbatim>\<open>total_seconds = -3600\<close>,
  whose day count (line 105) and cut (line 146) are both taken towards zero.
\<close>

theorem relative_time_days_difference_floors:
  "relative_time now ''2025-01-01T00:00:00'' (Some ''2025-01-01T01:00:00'') =
     Returned [(''target'', VStr ''2025-01-01T00:00:00''),
               (''target_day_of_week'', VStr ''Wednesday''),
               (''reference'', VStr ''2025-01-01T01:00:00''),
               (''relative'', VStr ''1 hour ago''),
               (''days_difference'', VInt (- 1)),
               (''total_seconds'', VInt (- 3600))]"
  by code_simp

text \<open>What the field holds in general, for two parsed texts: the floor of the delta in
  days.\<close>

lemma relative_time_days_difference:
  assumes "try_formats rt_formats date_str = Some target"
    and "reference \<noteq> []"
    and "try_formats rt_formats reference = Some ref"
  shows "field (relative_time now date_str (Some reference)) ''days_difference'' =
           Some (VInt ((wall_seconds target - wall_seconds ref) div 86400))"
proof -
  have us: "dt_microsecond target = 0" "dt_microsecond ref = 0"
    using assms try_formats_Some by blast+
  have "(wall_seconds target - wall_seconds ref) * 1000000 div (86400 * 1000000) =
        (wall_seconds target - wall_seconds ref) div 86400"
    by (rule div_mult_mult2) simp
  then have "td_days (dt_sub target ref) = (wall_seconds target - wall_seconds ref) div 86400"
    unfolding td_days_dt_sub wall_micros_parsed[OF us] by simp
  then show ?thesis
    unfolding relative_time_parsed[OF assms] by (simp add: rt_result_def Let_def)
qed

text \<open>
  \<^bold>\<open>Claim C2\<close>: for every parseable target and reference, the phrase of \<^verbatim>\<open>relative_time\<close>
  names exactly one value and one unit, the tier that the rule of the specification
  (\<^const>\<open>spec_tier\<close>: years from 365 whole days on, months from 30, weeks from 7, days from
  1, then hours, minutes, seconds) picks for the magnitude of the delta. (A delta of zero
  gives "now".) The witness runs a delta of exactly 7 days, in both directions, and one
  of 6 days 23:59:59.
\<close>

theorem relative_time_single_tier:
  assumes "try_formats rt_formats date_str = Some target"
    and "reference \<noteq> []"
    and "try_formats rt_formats reference = Some ref"
  shows "field (relative_time now date_str (Some reference)) ''relative'' =
           Some (VStr
             (let delta = wall_seconds target - wall_seconds ref;
                  u = fst (spec_tier \<bar>delta\<bar>);
                  v = snd (spec_tier \<bar>delta\<bar>);
                  desc = str_int v @ '' '' @ unit_word u v
              in if delta = 0 then ''now''
                 else if delta > 0 then ''in '' @ desc else desc @ '' ago''))"
  unfolding relative_field_parsed[OF assms] phrase_micros_whole Let_def ..

theorem relative_time_single_tier_witness:
  "field (relative_time clock_a ''2025-01-08'' (Some ''2025-01-01'')) ''relative'' =
     Some (VStr ''in 1 week'') \<and>
   field (relative_time clock_a ''2025-01-01'' (Some ''2025-01-08'')) ''relative'' =
     Some (VStr ''1 week ago'') \<and>
   field (relative_time clock_a ''2025-01-07T23:59:59'' (Some ''2025-01-01'')) ''relative'' =
     Some (VStr ''in 6 days'')"
proof -
  have ne: "''2025-01-01'' \<noteq> []" "''2025-01-08'' \<noteq> []" by simp_all
  have "field (relative_time clock_a ''2025-01-08'' (Some ''2025-01-01'')) ''relative'' =
     Some (VStr ''in 1 week'')"
    unfolding relative_time_single_tier[OF parse_2025_01_08 ne(1) parse_2025_01_01]
    by code_simp
  moreover have "field (relative_time clock_a ''2025-01-01'' (Some ''2025-01-08'')) ''relative'' =
     Some (VStr ''1 week ago'')"
    unfolding relative_time_single_tier[OF parse_2025_01_01 ne(2) parse_2025_01_08]
    by code_simp
  moreover have
    "field (relative_time clock_a ''2025-01-07T23:59:59'' (Some ''2025-01-01'')) ''relative'' =
     Some (VStr ''in 6 days'')"
    unfolding relative_time_single_tier[OF parse_2025_01_07_235959 ne(1) parse_2025_01_01]
    by code_simp
  ultimately show ?thesis by blast
qed

text \<open>
  \<^bold>\<open>Claim C3\<close>: for every parseable target and reference, the phrase is
  "in \<open>value\<close> \<open>unit\<close>" when the signed delta is positive and "\<open>value\<close> \<open>unit\<close> ago"
  otherwise; the unit is singular exactly when the value is 1 and plural for every other
  value; and a delta of magnitude below one second gives "now". Two parsed datetimes
  have no microseconds, so the delta is a whole number of seconds, every float of lines
  100 to 108 is exact, and the magnitude is below one second only when the delta is 0.
\<close>

theorem relative_time_phrase:
  assumes "try_formats rt_formats date_str = Some target"
    and "reference \<noteq> []"
    and "try_formats rt_formats reference = Some ref"
  shows "field (relative_time now date_str (Some reference)) ''relative'' =
           Some (VStr
             (let delta = wall_seconds target - wall_seconds ref;
                  u = fst (spec_tier \<bar>delta\<bar>);
                  v = snd (spec_tier \<bar>delta\<bar>);
                  value_unit = str_int v @ '' '' @ (if v = 1 then singular u else singular u @ ''s'')
              in if \<bar>delta\<bar> < 1 then ''now''
                 else if delta > 0 then ''in '' @ value_unit
                 else value_unit @ '' ago''))"
proof -
  have z: "\<bar>d\<bar> < 1 \<longleftrightarrow> d = 0" for d :: int
    by auto
  show ?thesis
    unfolding relative_field_parsed[OF assms] phrase_micros_whole Let_def unit_word_def
      plural_def z ..
qed

theorem relative_time_phrase_witness:
  "field (relative_time clock_a ''2026-11-04T12:00:01'' (Some ''2026-11-04T12:00:00'')) ''relative''
     = Some (VStr ''in 1 second'') \<and>
   field (relative_time clock_a ''2026-11-04T12:00:00'' (Some ''2026-11-04T12:00:01'')) ''relative''
     = Some (VStr ''1 second ago'') \<and>
   field (relative_time clock_a ''2026-11-04T12:00:00'' (Some ''2026-11-04T12:00:00'')) ''relative''
     = Some (VStr ''now'') \<and>
   field (relative_time clock_a ''2025-01-01'' (Some ''2025-01-07T23:59:59'')) ''relative''
     = Some (VStr ''6 days ago'')"
proof -
  have ne: "''2026-11-04T12:00:00'' \<noteq> []" "''2026-11-04T12:00:01'' \<noteq> []"
    "''2025-01-07T23:59:59'' \<noteq> []"
    by simp_all
  have
    "field (relative_time clock_a ''2026-11-04T12:00:01'' (Some ''2026-11-04T12:00:00'')) ''relative''
       = Some (VStr ''in 1 second'')"
    unfolding relative_time_phrase[OF parse_2026_11_04_120001 ne(1) parse_2026_11_04_120000]
    by code_simp
  moreover have
    "field (relative_time clock_a ''2026-11-04T12:00:00'' (Some ''2026-11-04T12:00:01'')) ''relative''
       = Some (VStr ''1 second ago'')"
    unfolding relative_time_phrase[OF parse_2026_11_04_120000 ne(2) parse_2026_11_04_120001]
    by code_simp
  moreover have
    "field (relative_time clock_a ''2026-11-04T12:00:00'' (Some ''2026-11-04T12:00:00'')) ''relative''
       = Some (VStr ''now'')"
    unfolding relative_time_phrase[OF parse_2026_11_04_120000 ne(1) parse_2026_11_04_120000]
    by code_simp
  moreover have
    "field (relative_time clock_a ''2025-01-01'' (Some ''2025-01-07T23:59:59'')) ''relative''
       = Some (VStr ''6 days ago'')"
    unfolding relative_time_phrase[OF parse_2025_01_01 ne(3) parse_2025_01_07_235959]
    by code_simp
  ultimately show ?thesis by blast
qed

text \<open>
  \<^bold>\<open>Claim C10\<close>: with a non-empty reference, \<^verbatim>\<open>relative_time\<close> does not depend on the clock:
  two runs on the same two strings at any two clock readings return the same outcome.
  (Without a reference it does: lemma \<open>relative_time_reads_clock_without_reference\<close>.)
\<close>

theorem relative_time_clock_independent:
  assumes "reference \<noteq> []"
  shows "relative_time now1 date_str (Some reference) = relative_time now2 date_str (Some reference)"
  using assms by (simp add: relative_time_def split: option.splits)

theorem relative_time_clock_independent_witness:
  "relative_time clock_a ''2025-01-08'' (Some ''2025-01-01'') =
     relative_time clock_b ''2025-01-08'' (Some ''2025-01-01'') \<and>
   clock_a \<noteq> clock_b"
proof -
  have ne: "''2025-01-01'' \<noteq> []" by simp
  have "clock_a \<noteq> clock_b" by (simp add: clock_a_def clock_b_def)
  with relative_time_clock_independent[OF ne, of clock_a "''2025-01-08''" clock_b]
  show ?thesis by blast
qed

lemma relative_time_reads_clock_without_reference:
  "relative_time clock_a ''2025-01-08'' None \<noteq> relative_time clock_b ''2025-01-08'' None"
  by code_simp

section \<open>\<^verbatim>\<open>days_in_month\<close>: the claims\<close>

lemma month_cases:
  assumes "1 \<le> (m::int)" "m \<le> 12"
  shows "m = 1 \<or> m = 2 \<or> m = 3 \<or> m = 4 \<or> m = 5 \<or> m = 6 \<or> m = 7 \<or> m = 8 \<or> m = 9 \<or> m = 10
         \<or> m = 11 \<or> m = 12"
  using assms by arith

lemma monthrange_days:
  assumes "1 \<le> m" "m \<le> 12"
  shows "snd (monthrange y m) = spec_days_in_month y m"
  using month_cases[OF assms]
  by (auto simp: monthrange_def Let_def mdays_def isleap_def spec_days_in_month_def spec_is_leap_year_def)

lemma py_days_in_month_spec:
  assumes "1 \<le> m" "m \<le> 12"
  shows "py_days_in_month y m = spec_days_in_month y m"
  using month_cases[OF assms]
  by (auto simp: py_days_in_month_def DAYS_IN_MONTH_def py_is_leap_def spec_days_in_month_def spec_is_leap_year_def)

lemma spec_days_in_month_bounds: "28 \<le> spec_days_in_month y m \<and> spec_days_in_month y m \<le> 31"
  by (simp add: spec_days_in_month_def)

lemma days_in_month_valid:
  assumes "year = int_or year_arg (dt_year now)" "month = int_or month_arg (dt_month now)"
    and "1 \<le> year" "year \<le> 9999" "1 \<le> month" "month \<le> 12"
  shows "days_in_month now year_arg month_arg =
     Returned
       [(''year'', VInt year),
        (''month'', VInt month),
        (''month_name'', VStr (month_names ! nat (month - 1))),
        (''days_in_month'', VInt (spec_days_in_month year month)),
        (''first_day'',
           VDict [(''date'', VStr (pad4 year @ ''-'' @ pad2 month @ ''-'' @ pad2 1)),
                  (''day_of_week'', VStr (day_names ! nat ((py_ymd2ord year month 1 + 6) mod 7)))]),
        (''last_day'',
           VDict [(''date'', VStr (pad4 year @ ''-'' @ pad2 month @ ''-'' @ pad2 (spec_days_in_month year month))),
                  (''day_of_week'', VStr (day_names ! nat ((py_ymd2ord year month (spec_days_in_month year month) + 6) mod 7)))]),
        (''is_leap_year'', VBool (spec_is_leap_year year))]"
proof -
  have mr: "monthrange year month = (fst (monthrange year month), spec_days_in_month year month)"
    using monthrange_days[OF assms(5,6), of year] by (metis prod.collapse)
  have b: "28 \<le> spec_days_in_month year month" "spec_days_in_month year month \<le> 31"
    using spec_days_in_month_bounds by blast+
  have first: "mk_datetime year month 1 0 0 0 0 =
      Some \<lparr>dt_year = year, dt_month = month, dt_day = 1, dt_hour = 0, dt_minute = 0,
             dt_second = 0, dt_microsecond = 0\<rparr>"
    using assms(3-6) b
    by (simp add: mk_datetime_def check_date_fields_def check_time_fields_def
        py_days_in_month_spec[OF assms(5,6)])
  have last: "mk_datetime year month (spec_days_in_month year month) 0 0 0 0 =
      Some \<lparr>dt_year = year, dt_month = month, dt_day = spec_days_in_month year month, dt_hour = 0,
             dt_minute = 0, dt_second = 0, dt_microsecond = 0\<rparr>"
    using assms(3-6) b
    by (simp add: mk_datetime_def check_date_fields_def check_time_fields_def
        py_days_in_month_spec[OF assms(5,6)])
  have "\<not> \<not> (1 \<le> month \<and> month \<le> 12)" using assms by simp
  then show ?thesis
    unfolding days_in_month_def Let_def assms(1,2)[symmetric]
    apply (simp only: if_False)
    apply (subst mr)
    apply (simp only: prod.case first last option.case)
    apply (simp add: strftime_B_def strftime_date_def strftime_A_def weekday_def toordinal_def
        spec_is_leap_year_def)
    done
qed


lemma days_in_month_invalid_month:
  assumes "month \<noteq> 0" "\<not> (1 \<le> month \<and> month \<le> 12)"
  shows "days_in_month now year_arg (Some month) =
           Returned [(''error'', VStr (''Invalid month: '' @ str_int month @ ''. Must be 1-12.''))]"
  using assms by (simp add: days_in_month_def Let_def)

text \<open>
  \<^bold>\<open>Claim C4\<close> says that every month outside 1..12, 0 included, gets the error dict. Every
  such month but 0 does (lemma \<open>days_in_month_invalid_month\<close>). A month of 0 is false in
  \<^verbatim>\<open>month or now.month\<close> on line 164, so the range check of line 166 sees the month of the
  clock instead and the tool answers for the current month, although its own message and
  docstring say that a month must be in 1-12. On 4 November 2026:
\<close>

theorem days_in_month_zero_month:
  "days_in_month clock_a (Some 2025) (Some 0) =
     Returned
       [(''year'', VInt 2025),
        (''month'', VInt 11),
        (''month_name'', VStr ''November''),
        (''days_in_month'', VInt 30),
        (''first_day'',
           VDict [(''date'', VStr ''2025-11-01''), (''day_of_week'', VStr ''Saturday'')]),
        (''last_day'',
           VDict [(''date'', VStr ''2025-11-30''), (''day_of_week'', VStr ''Sunday'')]),
        (''is_leap_year'', VBool False)]"
  by code_simp

theorem days_in_month_zero_month_witness:
  "field (days_in_month clock_a (Some 2025) (Some 0)) ''error'' = None \<and>
   field (days_in_month clock_a (Some 2025) (Some 0)) ''month'' = Some (VInt 11)"
  using days_in_month_zero_month by simp

text \<open>
  \<^bold>\<open>Claim C5\<close>, as amended: for every year in 1..9999 and every month in 1..12, the tool
  reports the Gregorian number of days of that month, February having 29 days exactly when
  the leap-year flag is true, and the flag is true iff
  \<^verbatim>\<open>year % 4 == 0 and (year % 100 != 0 or year % 400 == 0)\<close>. The claim as stated, for
  every year, fails: a year outside 1..9999 is not a year of \<^verbatim>\<open>datetime\<close>, and the tool
  raises \<^verbatim>\<open>ValueError\<close> when it builds the first day of the month.
\<close>

theorem days_in_month_gregorian:
  assumes "1 \<le> year" "year \<le> 9999" "1 \<le> month" "month \<le> 12"
  shows "field (days_in_month now (Some year) (Some month)) ''days_in_month'' =
           Some (VInt (spec_days_in_month year month)) \<and>
         field (days_in_month now (Some year) (Some month)) ''is_leap_year'' =
           Some (VBool (year mod 4 = 0 \<and> (year mod 100 \<noteq> 0 \<or> year mod 400 = 0))) \<and>
         (spec_days_in_month year month = 29 \<longleftrightarrow>
            month = 2 \<and> (year mod 4 = 0 \<and> (year mod 100 \<noteq> 0 \<or> year mod 400 = 0)))"
proof -
  have y: "year = int_or (Some year) (dt_year now)" and m: "month = int_or (Some month) (dt_month now)"
    using assms by simp_all
  have "spec_days_in_month year month = 29 \<longleftrightarrow>
          month = 2 \<and> (year mod 4 = 0 \<and> (year mod 100 \<noteq> 0 \<or> year mod 400 = 0))"
    by (simp add: spec_days_in_month_def spec_is_leap_year_def)
  then show ?thesis
    unfolding days_in_month_valid[OF y m assms] by (simp add: spec_is_leap_year_def)
qed

theorem days_in_month_gregorian_witness:
  "field (days_in_month clock_a (Some 2024) (Some 2)) ''days_in_month'' = Some (VInt 29) \<and>
   field (days_in_month clock_a (Some 2024) (Some 2)) ''is_leap_year'' = Some (VBool True) \<and>
   field (days_in_month clock_a (Some 1900) (Some 2)) ''days_in_month'' = Some (VInt 28) \<and>
   field (days_in_month clock_a (Some 1900) (Some 2)) ''is_leap_year'' = Some (VBool False) \<and>
   field (days_in_month clock_a (Some 2025) (Some 9)) ''days_in_month'' = Some (VInt 30)"
proof -
  have "field (days_in_month clock_a (Some 2024) (Some 2)) ''days_in_month'' = Some (VInt 29) \<and>
        field (days_in_month clock_a (Some 2024) (Some 2)) ''is_leap_year'' = Some (VBool True)"
    using days_in_month_gregorian[of 2024 2 clock_a]
    by (simp add: spec_days_in_month_def spec_is_leap_year_def)
  moreover have
    "field (days_in_month clock_a (Some 1900) (Some 2)) ''days_in_month'' = Some (VInt 28) \<and>
     field (days_in_month clock_a (Some 1900) (Some 2)) ''is_leap_year'' = Some (VBool False)"
    using days_in_month_gregorian[of 1900 2 clock_a]
    by (simp add: spec_days_in_month_def spec_is_leap_year_def)
  moreover have "field (days_in_month clock_a (Some 2025) (Some 9)) ''days_in_month'' = Some (VInt 30)"
    using days_in_month_gregorian[of 2025 9 clock_a] by (simp add: spec_days_in_month_def)
  ultimately show ?thesis by blast
qed

theorem days_in_month_year_10000_raises:
  "days_in_month clock_a (Some 10000) (Some 1) = Raised ValueError \<and>
   field (days_in_month clock_a (Some 10000) (Some 1)) ''days_in_month'' = None"
  by code_simp

section \<open>\<^verbatim>\<open>get_week_year\<close>: the claim\<close>

lemma match_items_groups:
  "(g, rest) \<in> set (match_items its s) \<Longrightarrow> map fst g = group_names its"
proof (induction its arbitrary: s g rest)
  case Nil
  then show ?case by simp
next
  case (Cons it its)
  show ?case
  proof (cases it)
    case (Plain r)
    with Cons.prems obtain s' where "(g, rest) \<in> set (match_items its s')"
      by auto
    with Cons.IH Plain show ?thesis by simp
  next
    case (Group d r)
    with Cons.prems obtain s' g' where "(g', rest) \<in> set (match_items its s')"
      and "g = (d, take (length s - length s') s) # g'"
      by auto
    with Cons.IH Group show ?thesis by simp
  qed
qed

lemma group_int_absent:
  assumes "map fst found = names" "d \<notin> set names"
  shows "group_int found d dflt = dflt"
proof -
  have "map_of found d = None"
    using assms by (metis map_of_eq_None_iff set_map)
  then show ?thesis by (simp add: group_int_def)
qed

lemma pattern_date: "pattern ''%Y-%m-%d'' =
  Some [Group CHR ''Y'' re_Y, Plain (Lit CHR ''-''), Group CHR ''m'' re_m, Plain (Lit CHR ''-''),
        Group CHR ''d'' re_d]"
  by (simp add: directive_re_def isspace_def)

lemma strptime_date_only:
  assumes "strptime s ''%Y-%m-%d'' = Some t"
  shows "dt_hour t = 0 \<and> dt_minute t = 0 \<and> dt_second t = 0 \<and> dt_microsecond t = 0"
proof -
  from assms obtain found rest ms where
    m: "match_items [Group CHR ''Y'' re_Y, Plain (Lit CHR ''-''), Group CHR ''m'' re_m,
          Plain (Lit CHR ''-''), Group CHR ''d'' re_d] s = (found, rest) # ms"
    and t: "mk_datetime (group_int found CHR ''Y'' 1900) (group_int found CHR ''m'' 1)
                      (group_int found CHR ''d'' 1) (group_int found CHR ''H'' 0)
                      (group_int found CHR ''M'' 0) (group_int found CHR ''S'' 0) 0 = Some t"
    unfolding strptime_def pattern_date option.case
    by (cases "match_items [Group CHR ''Y'' re_Y, Plain (Lit CHR ''-''), Group CHR ''m'' re_m,
          Plain (Lit CHR ''-''), Group CHR ''d'' re_d] s")
       (auto simp del: match_items.simps split: if_splits)
  have "(found, rest) \<in> set (match_items [Group CHR ''Y'' re_Y, Plain (Lit CHR ''-''), Group CHR ''m'' re_m,
          Plain (Lit CHR ''-''), Group CHR ''d'' re_d] s)"
    unfolding m by simp
  then have names: "map fst found = ''Ymd''"
    using match_items_groups by fastforce
  have "group_int found CHR ''H'' 0 = 0" "group_int found CHR ''M'' 0 = 0" "group_int found CHR ''S'' 0 = 0"
    using group_int_absent[OF names] by simp_all
  with t show ?thesis
    by (auto simp: mk_datetime_def split: if_splits)
qed

lemma ord_2024_01_01: "toordinal (dtm 2024 1 1 0 0 0) = 738886"
  by code_simp

lemma mod7_anchor: "(x - 738886) mod 7 = (x - 1) mod (7::int)"
proof -
  have "x - 738886 = (x - 1) + 7 * (- 105555)" by simp
  then show ?thesis by (metis mod_mult_self2)
qed

lemma isoweekday_anchor:
  "isoweekday t = (toordinal t - toordinal (dtm 2024 1 1 0 0 0)) mod 7 + 1"
  unfolding isoweekday_def ord_2024_01_01 mod7_anchor by presburger

lemma weekday_anchor:
  "weekday t = (toordinal t - toordinal (dtm 2024 1 1 0 0 0)) mod 7"
  unfolding weekday_def ord_2024_01_01 mod7_anchor by presburger

lemma tm_yday_ordinal:
  "tm_yday t = toordinal t - toordinal (dtm (dt_year t) 1 1 0 0 0) + 1"
  by (simp add: tm_yday_def toordinal_def dtm_def py_ymd2ord_def py_days_before_month_def
      DAYS_BEFORE_MONTH_def)

lemma days_remaining_whole:
  assumes "dt_hour t = 0 \<and> dt_minute t = 0 \<and> dt_second t = 0 \<and> dt_microsecond t = 0"
  shows "td_days (dt_sub \<lparr>dt_year = y, dt_month = 12, dt_day = 31, dt_hour = 0,
                                     dt_minute = 0, dt_second = 0, dt_microsecond = 0\<rparr> t)
         = toordinal (dtm y 12 31 0 0 0) - toordinal t"
proof -
  have z: "td_days (mk_timedelta d 0 0) = d" for d
    by (simp add: mk_timedelta_def)
  have "dt_sub \<lparr>dt_year = y, dt_month = 12, dt_day = 31, dt_hour = 0,
                dt_minute = 0, dt_second = 0, dt_microsecond = 0\<rparr> t =
        mk_timedelta (toordinal (dtm y 12 31 0 0 0) - toordinal t) 0 0"
    using assms by (simp add: dt_sub_def Let_def dtm_def)
  then show ?thesis
    by (simp only: z)
qed

lemma parse_date_2023_01_01:
  "strptime ''2023-01-01'' ''%Y-%m-%d'' = Some (dtm 2023 1 1 0 0 0)"
  by code_simp

text \<open>
  \<^bold>\<open>Claim C9\<close>: for every date text that \<^verbatim>\<open>strptime\<close> accepts as \<^verbatim>\<open>%Y-%m-%d\<close>, the tool
  returns \<^verbatim>\<open>week_number = (dayOfYear - 1) div 7 + 1\<close>, where the day of the year is counted
  from 1 January of the same year; \<^verbatim>\<open>day_of_week_number\<close> between 1 and 7, counted from
  Monday (1 January 2024 was a Monday), with the matching name; \<^verbatim>\<open>is_weekend\<close> true iff
  that number is at least 6; \<^verbatim>\<open>quarter = (month - 1) div 3 + 1\<close>; and
  \<^verbatim>\<open>days_remaining_in_year\<close>, the number of days from the date to 31 December of its
  year. The week number is computed apart from the ISO week: on 1 January 2023 (the
  witness) it is 1 while \<^verbatim>\<open>iso_week\<close> is 52.
\<close>

theorem get_week_year_fields:
  assumes "date_str \<noteq> []" and "strptime date_str ''%Y-%m-%d'' = Some dt"
  shows "(let out = get_week_year now (Some date_str);
              day_of_year = toordinal dt - toordinal (dtm (dt_year dt) 1 1 0 0 0) + 1;
              n = (toordinal dt - toordinal (dtm 2024 1 1 0 0 0)) mod 7 + 1
          in field out ''week_number'' = Some (VInt ((day_of_year - 1) div 7 + 1)) \<and>
             field out ''day_of_week_number'' = Some (VInt n) \<and>
             1 \<le> n \<and> n \<le> 7 \<and>
             field out ''day_of_week'' = Some (VStr (day_names ! nat (n - 1))) \<and>
             field out ''is_weekend'' = Some (VBool (n \<ge> 6)) \<and>
             field out ''quarter'' = Some (VInt ((dt_month dt - 1) div 3 + 1)) \<and>
             field out ''days_remaining_in_year'' =
               Some (VInt (toordinal (dtm (dt_year dt) 12 31 0 0 0) - toordinal dt)))"
proof -
  have out: "get_week_year now (Some date_str) = Returned (gwy_result dt)"
    using assms by (simp add: get_week_year_def)
  have rem: "td_days (dt_sub \<lparr>dt_year = dt_year dt, dt_month = 12, dt_day = 31, dt_hour = 0,
                                     dt_minute = 0, dt_second = 0, dt_microsecond = 0\<rparr> dt)
         = toordinal (dtm (dt_year dt) 12 31 0 0 0) - toordinal dt"
    using days_remaining_whole[OF strptime_date_only[OF assms(2)]] .
  have nm: "strftime_A dt = day_names ! nat ((toordinal dt - toordinal (dtm 2024 1 1 0 0 0)) mod 7)"
    by (simp add: strftime_A_def weekday_anchor)
  show ?thesis
    unfolding Let_def out field.simps gwy_result_def rem nm
    by (simp add: isoweekday_anchor tm_yday_ordinal)
qed


theorem get_week_year_fields_witness:
  "field (get_week_year clock_a (Some ''2023-01-01'')) ''week_number'' = Some (VInt 1) \<and>
   field (get_week_year clock_a (Some ''2023-01-01'')) ''iso_week'' = Some (VInt 52) \<and>
   field (get_week_year clock_a (Some ''2023-01-01'')) ''day_of_week_number'' = Some (VInt 7) \<and>
   field (get_week_year clock_a (Some ''2023-01-01'')) ''day_of_week'' = Some (VStr ''Sunday'') \<and>
   field (get_week_year clock_a (Some ''2023-01-01'')) ''is_weekend'' = Some (VBool True) \<and>
   field (get_week_year clock_a (Some ''2023-01-01'')) ''quarter'' = Some (VInt 1) \<and>
   field (get_week_year clock_a (Some ''2023-01-01'')) ''days_remaining_in_year'' = Some (VInt 364)"
proof -
  have ne: "''2023-01-01'' \<noteq> []" by simp
  note T = get_week_year_fields[OF ne parse_date_2023_01_01, of clock_a, unfolded Let_def]
  have o1: "toordinal (dtm 2023 1 1 0 0 0) = 738521" by code_simp
  have o2: "toordinal (dtm (dt_year (dtm 2023 1 1 0 0 0)) 1 1 0 0 0) = 738521" by code_simp
  have o3: "toordinal (dtm (dt_year (dtm 2023 1 1 0 0 0)) 12 31 0 0 0) = 738885" by code_simp
  have o4: "toordinal (dtm 2024 1 1 0 0 0) = 738886" by code_simp
  have o5: "dt_month (dtm 2023 1 1 0 0 0) = 1" by code_simp
  have iso: "field (get_week_year clock_a (Some ''2023-01-01'')) ''iso_week'' = Some (VInt 52)"
    by code_simp
  from T iso show ?thesis
    unfolding o1 o2 o3 o4 o5 by (simp add: day_names_def)
qed

section \<open>The shape of what the tools return\<close>

lemma rt_result_no_error: "''error'' \<notin> set (keys (rt_result ds refr t r))"
  by (simp add: rt_result_def Let_def keys_def)

lemma gwy_result_no_error: "''error'' \<notin> set (keys (gwy_result t))"
  by (simp add: gwy_result_def Let_def keys_def)

lemma gdt_result_no_error: "''error'' \<notin> set (keys (gdt_result f t off nm))"
  by (simp add: gdt_result_def Let_def keys_def)

lemma relative_time_shape:
  "\<exists>d. relative_time now date_str reference = Returned d \<and> dict_shape d"
  using rt_result_no_error
  by (auto simp: relative_time_def dict_shape_def split: option.splits)

lemma get_week_year_shape:
  "\<exists>d. get_week_year now date_str = Returned d \<and> dict_shape d"
  using gwy_result_no_error
  by (auto simp: get_week_year_def dict_shape_def split: option.splits)

lemma get_datetime_shape:
  "get_datetime ZoneInfo local_zone utcnow tz format = Returned d \<Longrightarrow> dict_shape d"
  using gdt_result_no_error
  by (auto simp: get_datetime_def dict_shape_def split: option.splits sum.splits if_splits prod.splits)

lemma days_in_month_shape:
  "days_in_month now year_arg month_arg = Returned d \<Longrightarrow> dict_shape d"
  by (auto simp: days_in_month_def dict_shape_def Let_def keys_def split: option.splits if_splits prod.splits)

lemma convert_time_shape:
  "convert_time ZoneInfo time_str from_tz to_tz = Returned d \<Longrightarrow> dict_shape d"
  by (auto simp: convert_time_def dict_shape_def keys_def split: option.splits sum.splits prod.splits)

text \<open>
  \<^bold>\<open>Claim C6\<close> says that every input to each of the five tools ends in a returned dict,
  the single field \<^verbatim>\<open>error\<close> on failure and no such key on success. Every dict that a tool
  returns has that shape (the five lemmas above), and \<^verbatim>\<open>relative_time\<close> and
  \<^verbatim>\<open>get_week_year\<close> always return. But \<^verbatim>\<open>days_in_month\<close> checks the month and not the
  year: for a year outside 1..9999 the constructor on line 170 raises \<^verbatim>\<open>ValueError\<close>, which
  nothing catches. In the same way \<^verbatim>\<open>convert_time\<close> guards the construction of the zones
  with \<^verbatim>\<open>try\<close> and leaves \<^verbatim>\<open>astimezone\<close> on line 227 outside it, which raises
  \<^verbatim>\<open>OverflowError\<close> when the converted time leaves the years 1..9999. On these inputs no
  dict is returned at all.
\<close>

theorem uncaught_faults:
  "days_in_month clock_a (Some 12025) (Some 6) = Raised ValueError \<and>
   days_in_month clock_a (Some (- 1)) None = Raised ValueError \<and>
   convert_time example_zones ''0001-01-01 00:00:00'' ''Asia/Tokyo'' ''UTC'' = Raised OverflowError"
  by code_simp

theorem uncaught_faults_witness:
  "field (days_in_month clock_a (Some 12025) (Some 6)) ''error'' = None \<and>
   field (convert_time example_zones ''0001-01-01 00:00:00'' ''Asia/Tokyo'' ''UTC'') ''error'' = None"
  using uncaught_faults by simp

section \<open>Parsing: the claim\<close>















end
